theory Spec2Isabelle
  imports Complex_Main "HOL-Library.Multiset" "HOL-Library.Char_ord" "HOL-Library.List_Lexorder"
begin

section \<open>FontKitJS: a shallow embedding\<close>

text \<open>
  The development follows the library source (the IIFE that defines \<open>FontManager\<close>) top
  down: utilities, the style string builders, \<open>StyleInjector\<close>, \<open>FontLoader\<close>,
  \<open>FontMetrics\<close>, \<open>FontManager\<close> and the parsing helpers at the end of the file.

  Conventions of the embedding.
  \<^item> A JavaScript string is a \<open>string\<close>; every \<open>char\<close> stands for one code unit in the
    range 0..255 (Latin-1), which covers every character class the source's regular
    expressions name.
  \<^item> A JavaScript number is a \<open>number\<close>: \<open>NaN\<close>, the two infinities, or a finite value
    carried as an exact rational. Arithmetic on finite values is exact: the rounding and
    the overflow of IEEE doubles are not modelled, and neither is the sign of zero.
  \<^item> A JavaScript value is a \<open>jsval\<close>, restricted to the primitive types.
  \<^item> A plain object is an association list in the order of \<open>Object.entries\<close>.
\<close>

subsection \<open>Characters\<close>

definition is_digit :: "char \<Rightarrow> bool" where
  \<comment> \<open>the class \<open>\d\<close>\<close>
  "is_digit c = (48 \<le> (of_char c :: nat) \<and> (of_char c :: nat) \<le> 57)"

definition is_alnum :: "char \<Rightarrow> bool" where
  \<comment> \<open>the class \<open>[A-Za-z0-9]\<close>\<close>
  "is_alnum c =
     ((65 \<le> (of_char c :: nat) \<and> (of_char c :: nat) \<le> 90) \<or>
      (97 \<le> (of_char c :: nat) \<and> (of_char c :: nat) \<le> 122) \<or>
      (48 \<le> (of_char c :: nat) \<and> (of_char c :: nat) \<le> 57))"

definition is_space :: "char \<Rightarrow> bool" where
  \<comment> \<open>the class \<open>\s\<close> (white space and line terminators) below code unit 256:
      TAB, LF, VT, FF, CR, SP and NBSP\<close>
  "is_space c = ((of_char c :: nat) \<in> {9, 10, 11, 12, 13, 32, 160})"

definition is_quote :: "char \<Rightarrow> bool" where
  \<comment> \<open>the class \<open>["']\<close>\<close>
  "is_quote c = (c = CHR 0x22 \<or> c = CHR 0x27)"

definition digit_val :: "char \<Rightarrow> nat" where
  "digit_val c = of_char c - 48"

definition digit_char :: "nat \<Rightarrow> char" where
  "digit_char d = ''0123456789'' ! d"

definition digits_val :: "string \<Rightarrow> nat" where
  \<comment> \<open>the mathematical value of a run of decimal digits\<close>
  "digits_val ds = foldl (\<lambda>a c. 10 * a + digit_val c) 0 ds"

fun digits_of :: "nat \<Rightarrow> string" where
  \<comment> \<open>the decimal digits of a natural number, most significant first\<close>
  "digits_of n = (if n < 10 then [digit_char n] else digits_of (n div 10) @ [digit_char (n mod 10)])"

declare digits_of.simps [simp del]

definition to_lower_char :: "char \<Rightarrow> char" where
  \<comment> \<open>\<open>toLowerCase\<close> on one code unit below 256: A-Z, and the Latin-1 capitals
      0xC0..0xDE without the multiplication sign 0xD7\<close>
  "to_lower_char c =
     (let n = (of_char c :: nat) in
      if (65 \<le> n \<and> n \<le> 90) \<or> (192 \<le> n \<and> n \<le> 222 \<and> n \<noteq> 215)
      then char_of (n + 32) else c)"

definition toLowerCase :: "string \<Rightarrow> string" where
  "toLowerCase s = map to_lower_char s"

fun starts_with :: "string \<Rightarrow> string \<Rightarrow> bool" where
  "starts_with [] s = True"
| "starts_with (p # ps) [] = False"
| "starts_with (p # ps) (c # cs) = (p = c \<and> starts_with ps cs)"

fun includes_str :: "string \<Rightarrow> string \<Rightarrow> bool" where
  \<comment> \<open>\<open>s.includes(p)\<close>\<close>
  "includes_str [] p = (p = [])"
| "includes_str (c # cs) p = (starts_with p (c # cs) \<or> includes_str cs p)"

definition endsWith :: "string \<Rightarrow> string \<Rightarrow> bool" where
  "endsWith s p = starts_with (rev p) (rev s)"

fun join :: "string \<Rightarrow> string list \<Rightarrow> string" where
  \<comment> \<open>\<open>parts.join(sep)\<close>\<close>
  "join sep [] = []"
| "join sep [x] = x"
| "join sep (x # y # ys) = x @ sep @ join sep (y # ys)"

subsection \<open>Numbers\<close>

datatype number = NaN | PosInfinity | NegInfinity | Fin rat

definition max_fraction_digits :: nat where
  \<comment> \<open>no double needs more decimal places than this in its shortest decimal form\<close>
  "max_fraction_digits = 400"

fun frac_len :: "nat \<Rightarrow> rat \<Rightarrow> nat" where
  \<comment> \<open>the number of decimal places of a finite decimal, searched up to the given bound\<close>
  "frac_len 0 r = 0"
| "frac_len (Suc n) r = (if of_int \<lfloor>r\<rfloor> = r then 0 else Suc (frac_len n (r * 10)))"

definition positive_to_string :: "rat \<Rightarrow> string" where
  \<comment> \<open>\<open>Number::toString\<close> (radix 10) on a positive finite value: with \<open>ds\<close> the \<open>k\<close>
      significant digits and \<open>n\<close> the position of the decimal point, steps 6 to 10 of the
      ECMAScript algorithm\<close>
  "positive_to_string r =
     (let j = frac_len max_fraction_digits r;
          al = digits_of (nat \<lfloor>r * 10 ^ j\<rfloor>);
          z = length (takeWhile (\<lambda>c. c = CHR ''0'') (rev al));
          ds = take (length al - z) al;
          k = int (length ds);
          n = int (length al) - int j
      in if k \<le> n \<and> n \<le> 21 then ds @ replicate (nat (n - k)) (CHR ''0'')
         else if 0 < n \<and> n \<le> 21 then take (nat n) ds @ ''.'' @ drop (nat n) ds
         else if - 6 < n \<and> n \<le> 0 then ''0.'' @ replicate (nat (- n)) (CHR ''0'') @ ds
         else let e = n - 1;
                  es = (if e < 0 then ''-'' else ''+'') @ digits_of (nat \<bar>e\<bar>)
              in if k = 1 then ds @ ''e'' @ es
                 else take 1 ds @ ''.'' @ drop 1 ds @ ''e'' @ es)"

definition numberToString :: "number \<Rightarrow> string" where
  "numberToString v =
     (case v of
        NaN \<Rightarrow> ''NaN''
      | PosInfinity \<Rightarrow> ''Infinity''
      | NegInfinity \<Rightarrow> ''-Infinity''
      | Fin r \<Rightarrow> if r = 0 then ''0''
                 else if r < 0 then ''-'' @ positive_to_string (- r)
                 else positive_to_string r)"

definition strip_sign :: "string \<Rightarrow> bool \<times> string" where
  \<comment> \<open>an optional \<open>+\<close> or \<open>-\<close>; the flag is set for \<open>-\<close>\<close>
  "strip_sign s =
     (case s of
        [] \<Rightarrow> (False, [])
      | c # cs \<Rightarrow> if c = CHR ''-'' then (True, cs)
                  else if c = CHR ''+'' then (False, cs) else (False, c # cs))"

definition exponent_part :: "string \<Rightarrow> int" where
  \<comment> \<open>the value of an \<open>ExponentPart\<close> at the head of the string, 0 when there is none\<close>
  "exponent_part s =
     (case s of
        [] \<Rightarrow> 0
      | c # cs \<Rightarrow>
          if c = CHR ''e'' \<or> c = CHR ''E'' then
            (let (neg, t) = strip_sign cs; ds = takeWhile is_digit t
             in if ds = [] then 0
                else if neg then - int (digits_val ds) else int (digits_val ds))
          else 0)"

definition scale10 :: "rat \<Rightarrow> int \<Rightarrow> rat" where
  "scale10 r e = (if 0 \<le> e then r * 10 ^ nat e else r / 10 ^ nat (- e))"

definition parseFloat :: "string \<Rightarrow> number" where
  \<comment> \<open>\<open>parseFloat\<close>: leading white space is skipped, then the longest prefix that is a
      \<open>StrDecimalLiteral\<close> is read; \<open>NaN\<close> when there is none\<close>
  "parseFloat str =
     (let (neg, u) = strip_sign (dropWhile is_space str)
      in if starts_with ''Infinity'' u then (if neg then NegInfinity else PosInfinity)
         else
           let ip = takeWhile is_digit u;
               u1 = dropWhile is_digit u;
               (fp, u2) = (case u1 of
                             [] \<Rightarrow> ([], u1)
                           | c # w \<Rightarrow> if c = CHR ''.''
                                       then (takeWhile is_digit w, dropWhile is_digit w)
                                       else ([], u1))
           in if ip = [] \<and> fp = [] then NaN
              else
                let mant = of_nat (digits_val ip) + of_nat (digits_val fp) / 10 ^ length fp;
                    v = scale10 mant (exponent_part u2)
                in Fin (if neg then - v else v))"

definition parseInt10 :: "string \<Rightarrow> number" where
  \<comment> \<open>\<open>parseInt(s, 10)\<close>\<close>
  "parseInt10 str =
     (let (neg, u) = strip_sign (dropWhile is_space str);
          ds = takeWhile is_digit u
      in if ds = [] then NaN
         else Fin (if neg then - of_nat (digits_val ds) else of_nat (digits_val ds)))"

definition num_mul :: "number \<Rightarrow> number \<Rightarrow> number" where
  \<comment> \<open>\<open>a * b\<close>\<close>
  "num_mul a b =
     (case (a, b) of
        (Fin x, Fin y) \<Rightarrow> Fin (x * y)
      | (NaN, _) \<Rightarrow> NaN
      | (_, NaN) \<Rightarrow> NaN
      | (Fin x, PosInfinity) \<Rightarrow> if x = 0 then NaN else if 0 < x then PosInfinity else NegInfinity
      | (Fin x, NegInfinity) \<Rightarrow> if x = 0 then NaN else if 0 < x then NegInfinity else PosInfinity
      | (PosInfinity, Fin y) \<Rightarrow> if y = 0 then NaN else if 0 < y then PosInfinity else NegInfinity
      | (NegInfinity, Fin y) \<Rightarrow> if y = 0 then NaN else if 0 < y then NegInfinity else PosInfinity
      | (PosInfinity, PosInfinity) \<Rightarrow> PosInfinity
      | (NegInfinity, NegInfinity) \<Rightarrow> PosInfinity
      | (PosInfinity, NegInfinity) \<Rightarrow> NegInfinity
      | (NegInfinity, PosInfinity) \<Rightarrow> NegInfinity)"

definition num_div :: "number \<Rightarrow> number \<Rightarrow> number" where
  \<comment> \<open>\<open>a / b\<close>; a zero divisor counts as \<open>+0\<close>\<close>
  "num_div a b =
     (case (a, b) of
        (Fin x, Fin y) \<Rightarrow>
          if y = 0 then (if x = 0 then NaN else if 0 < x then PosInfinity else NegInfinity)
          else Fin (x / y)
      | (NaN, _) \<Rightarrow> NaN
      | (_, NaN) \<Rightarrow> NaN
      | (Fin x, _) \<Rightarrow> Fin 0
      | (PosInfinity, Fin y) \<Rightarrow> if 0 \<le> y then PosInfinity else NegInfinity
      | (NegInfinity, Fin y) \<Rightarrow> if 0 \<le> y then NegInfinity else PosInfinity
      | (_, _) \<Rightarrow> NaN)"

definition num_le :: "number \<Rightarrow> number \<Rightarrow> bool" where
  \<comment> \<open>\<open>a <= b\<close>: false as soon as one side is \<open>NaN\<close>\<close>
  "num_le a b =
     (case (a, b) of
        (NaN, _) \<Rightarrow> False
      | (_, NaN) \<Rightarrow> False
      | (NegInfinity, _) \<Rightarrow> True
      | (_, PosInfinity) \<Rightarrow> True
      | (Fin x, Fin y) \<Rightarrow> x \<le> y
      | (_, _) \<Rightarrow> False)"

subsection \<open>Values and objects\<close>

datatype jsval = JUndefined | JNull | JBool bool | JNum number | JStr string

type_synonym object = "(string \<times> jsval) list"

definition isString :: "jsval \<Rightarrow> bool" where
  "isString v = (case v of JStr s \<Rightarrow> True | _ \<Rightarrow> False)"

definition isNumber :: "jsval \<Rightarrow> bool" where
  \<comment> \<open>\<open>typeof v === 'number' && !Number.isNaN(v)\<close>\<close>
  "isNumber v = (case v of JNum n \<Rightarrow> n \<noteq> NaN | _ \<Rightarrow> False)"

definition is_nullish :: "jsval \<Rightarrow> bool" where
  \<comment> \<open>\<open>v == null\<close>\<close>
  "is_nullish v = (v = JUndefined \<or> v = JNull)"

definition truthy :: "jsval \<Rightarrow> bool" where
  "truthy v =
     (case v of
        JUndefined \<Rightarrow> False
      | JNull \<Rightarrow> False
      | JBool b \<Rightarrow> b
      | JNum n \<Rightarrow> n \<noteq> NaN \<and> n \<noteq> Fin 0
      | JStr s \<Rightarrow> s \<noteq> [])"

definition String :: "jsval \<Rightarrow> string" where
  \<comment> \<open>\<open>String(v)\<close>, also the conversion inside a template literal\<close>
  "String v =
     (case v of
        JUndefined \<Rightarrow> ''undefined''
      | JNull \<Rightarrow> ''null''
      | JBool b \<Rightarrow> if b then ''true'' else ''false''
      | JNum n \<Rightarrow> numberToString n
      | JStr s \<Rightarrow> s)"

definition toUnitless :: "jsval \<Rightarrow> number" where
  \<comment> \<open>\<open>isNumber(v) ? v : parseFloat(String(v))\<close>\<close>
  "toUnitless v = (case v of JNum n \<Rightarrow> if n \<noteq> NaN then n else parseFloat (String v)
                           | _ \<Rightarrow> parseFloat (String v))"


abbreviation dq :: char where
  \<comment> \<open>the double quote\<close>
  "dq \<equiv> CHR 0x22"

definition obj_get :: "object \<Rightarrow> string \<Rightarrow> jsval option" where
  \<comment> \<open>\<open>obj[k]\<close> on an own property; \<open>None\<close> is \<open>undefined\<close>\<close>
  "obj_get ob k = map_of ob k"

definition is_array_index :: "string \<Rightarrow> bool" where
  \<comment> \<open>a canonical numeric string below \<open>2^32 - 1\<close>: such keys are enumerated first, in
      ascending order\<close>
  "is_array_index k =
     (k \<noteq> [] \<and> list_all is_digit k \<and> (k = ''0'' \<or> hd k \<noteq> CHR ''0'') \<and>
      digits_val k < 4294967295)"

fun obj_insert_index :: "string \<Rightarrow> jsval \<Rightarrow> object \<Rightarrow> object" where
  "obj_insert_index k v [] = [(k, v)]"
| "obj_insert_index k v ((k', v') # es) =
     (if is_array_index k' \<and> digits_val k' < digits_val k
      then (k', v') # obj_insert_index k v es
      else (k, v) # (k', v') # es)"

definition obj_set :: "object \<Rightarrow> string \<Rightarrow> jsval \<Rightarrow> object" where
  \<comment> \<open>\<open>obj[k] = v\<close>: an existing property keeps its place; a new one is enumerated
      after the others, array indices first\<close>
  "obj_set ob k v =
     (if k \<in> fst ` set ob then map (\<lambda>(k', v'). if k' = k then (k', v) else (k', v')) ob
      else if is_array_index k then obj_insert_index k v ob
      else ob @ [(k, v)])"

subsection \<open>Style string builders\<close>

definition cssEscape :: "string \<Rightarrow> string" where
  "cssEscape s =
     (let needsQuotes = list_ex (\<lambda>c. is_space c \<or> is_quote c) s;
          safe = filter (\<lambda>c. \<not> is_quote c) s
      in if needsQuotes then [dq] @ safe @ [dq] else safe)"

fun axis_parts :: "object \<Rightarrow> string list" where
  \<comment> \<open>the loop of \<open>axisToString\<close> over \<open>Object.entries(axes)\<close>\<close>
  "axis_parts [] = []"
| "axis_parts ((k, v) # es) =
     (if is_nullish v then axis_parts es
      else ([dq] @ k @ [dq] @ '' '' @ numberToString (toUnitless v)) # axis_parts es)"

definition axisToString :: "object option \<Rightarrow> string" where
  "axisToString axes = (case axes of None \<Rightarrow> [] | Some ob \<Rightarrow> join '', '' (axis_parts ob))"

fun feature_parts :: "object \<Rightarrow> string list" where
  \<comment> \<open>the loop of \<open>featuresToString\<close>\<close>
  "feature_parts [] = []"
| "feature_parts ((k, v) # es) =
     (if is_nullish v then feature_parts es
      else
        (let flag = (if truthy v then ''on'' else ''off'')
         in if isNumber v then [dq] @ k @ [dq] @ '' '' @ String v
            else [dq] @ k @ [dq] @ '' '' @ flag) # feature_parts es)"

definition featuresToString :: "object option \<Rightarrow> string" where
  "featuresToString features =
     (case features of None \<Rightarrow> [] | Some ob \<Rightarrow> join '', '' (feature_parts ob))"

record font_source =
  url :: string
  format :: "string option"

record font_descriptors =
  style :: "jsval option"
  weight :: "jsval option"
  stretch :: "jsval option"
  display :: "jsval option"
  unicodeRange :: "jsval option"

definition read_prop :: "jsval option \<Rightarrow> jsval" where
  \<comment> \<open>reading a property that may be absent\<close>
  "read_prop p = (case p of None \<Rightarrow> JUndefined | Some v \<Rightarrow> v)"

definition source_string :: "font_source list \<Rightarrow> string" where
  \<comment> \<open>the \<open>src\<close> value built from the source list\<close>
  "source_string srcList =
     join '', ''
       (map (\<lambda>s. let fmt = (case format s of
                               None \<Rightarrow> []
                             | Some f \<Rightarrow> if f = [] then [] else '' format('' @ [dq] @ f @ [dq] @ '')'')
                 in ''url('' @ [dq] @ url s @ [dq] @ '')'' @ fmt) srcList)"

definition buildFontFaceCSS :: "string \<Rightarrow> font_source list \<Rightarrow> font_descriptors \<Rightarrow> string" where
  "buildFontFaceCSS nm srcList d =
     (let decl = (\<lambda>label p. if truthy (read_prop p) then [label @ String (read_prop p) @ '';''] else []);
          props = decl ''font-style: '' (style d) @ decl ''font-weight: '' (weight d) @
                  decl ''font-stretch: '' (stretch d) @ decl ''font-display: '' (display d) @
                  decl ''unicode-range: '' (unicodeRange d)
      in ''@font-face { font-family: '' @ cssEscape nm @ ''; src: '' @ source_string srcList @
         ''; '' @ join '' '' props @ '' }'')"

subsection \<open>StyleInjector\<close>

record style_injector =
  styleEl :: "string list option"
  rules :: "string set"

text \<open>
  \<open>styleEl\<close> is \<open>None\<close> for \<open>null\<close>; once the style element exists, it is carried as the
  list of the text nodes appended to it, in order.
\<close>

definition new_StyleInjector :: style_injector where
  "new_StyleInjector = \<lparr>styleEl = None, rules = {}\<rparr>"

definition ensureNode :: "style_injector \<Rightarrow> style_injector" where
  "ensureNode si = (case styleEl si of Some el \<Rightarrow> si | None \<Rightarrow> si\<lparr>styleEl := Some []\<rparr>)"

definition appended_nodes :: "style_injector \<Rightarrow> string list" where
  \<comment> \<open>the text nodes of the style element, in document order\<close>
  "appended_nodes si = (case styleEl si of None \<Rightarrow> [] | Some el \<Rightarrow> el)"

definition inject :: "string \<Rightarrow> style_injector \<Rightarrow> style_injector" where
  "inject cssText si =
     (let si1 = ensureNode si
      in if cssText \<in> rules si1 then si1
         else si1\<lparr>styleEl := Some (appended_nodes si1 @ [cssText]),
                  rules := insert cssText (rules si1)\<rparr>)"


subsection \<open>Font descriptors, events and the state of a manager\<close>

record font_descriptor =
  name :: "string option"
  src :: "font_source list option"
  descriptors :: "font_descriptors option"
  axes :: "object option"
  features :: "object option"
  fallback :: "string list option"
  languages :: "string list option"

text \<open>
  \<open>font_descriptor\<close> is the descriptor a caller passes to \<open>loadFont\<close>: every field may
  be absent. \<open>font\<close> is the normalized descriptor that \<open>loadFont\<close> builds and stores in
  the registry: the name and the source list have passed the validation, and
  \<open>descriptors\<close>, \<open>fallback\<close> and \<open>languages\<close> have been filled in.
\<close>

record font =
  font_name :: string
  font_src :: "font_source list"
  font_descriptors :: font_descriptors
  font_axes :: "object option"
  font_features :: "object option"
  font_fallback :: "string list"
  font_languages :: "string list"

datatype load_result = Loaded string | Injected | Failed

text \<open>
  The three results of \<open>FontLoader.load\<close>: \<open>{status: 'loaded', font}\<close> (the font face is
  identified by its family name), \<open>{status: 'injected', font: null}\<close> and
  \<open>{status: 'failed', error, font: null}\<close>.
\<close>

datatype event =
    LoadEvent string load_result
  | ReadyEvent string bool
  | ClassEvent string

datatype error = InvalidDescriptor

record load_outcome =
  outcome_name :: string
  outcome_ok :: bool
  outcome_result :: load_result

record platform =
  supportsFontFace :: bool
  fontface_loads :: "font \<Rightarrow> bool"
  probe_detects :: "string \<Rightarrow> bool"
  localeCompare :: "string \<Rightarrow> string \<Rightarrow> int"

text \<open>
  What the browser decides: whether \<open>FontFace\<close> exists, whether \<open>fontFace.load()\<close>
  fulfils before the timeout, whether the width probe of \<open>waitFor\<close> sees the family
  become active before its deadline, and the collation of \<open>String.prototype.localeCompare\<close>.
\<close>

record manager =
  injector :: style_injector
  registry :: "(string \<times> font) list"
  emitted :: "event list"
  document_fonts :: "string list"
  load_requests :: "string list"
  defaultLanguage :: string
  defaultFallback :: "string list"

text \<open>
  The state a \<open>FontManager\<close> works on: the injector of its loader, its registry (a
  \<open>Map\<close>, kept in insertion order), the events it has emitted (in order: \<open>emit\<close> calls
  the listeners synchronously), the font faces added to \<open>document.fonts\<close>, the
  \<open>FontFace\<close> loads that were started, and the two defaults set by the constructor.
\<close>

definition registry_has :: "(string \<times> font) list \<Rightarrow> string \<Rightarrow> bool" where
  "registry_has reg k = (k \<in> fst ` set reg)"

definition registry_get :: "(string \<times> font) list \<Rightarrow> string \<Rightarrow> font option" where
  "registry_get reg k = map_of reg k"

definition registry_set :: "(string \<times> font) list \<Rightarrow> string \<Rightarrow> font \<Rightarrow> (string \<times> font) list" where
  "registry_set reg k f =
     (if k \<in> fst ` set reg then map (\<lambda>(k', f'). if k' = k then (k', f) else (k', f')) reg
      else reg @ [(k, f)])"

definition registry_all :: "(string \<times> font) list \<Rightarrow> font list" where
  "registry_all reg = map snd reg"

definition emit :: "event \<Rightarrow> manager \<Rightarrow> manager" where
  "emit ev m = m\<lparr>emitted := emitted m @ [ev]\<rparr>"

subsection \<open>FontLoader\<close>

definition loader_load :: "platform \<Rightarrow> font \<Rightarrow> manager \<Rightarrow> load_result \<times> manager" where
  \<comment> \<open>\<open>FontLoader.load\<close>\<close>
  "loader_load p desc m =
     (let css = buildFontFaceCSS (font_name desc) (font_src desc) (font_descriptors desc)
      in if \<not> supportsFontFace p then (Injected, m\<lparr>injector := inject css (injector m)\<rparr>)
         else
           let m1 = m\<lparr>load_requests := load_requests m @ [font_name desc]\<rparr>
           in if fontface_loads p desc
              then (Loaded (font_name desc),
                    m1\<lparr>document_fonts := document_fonts m1 @ [font_name desc]\<rparr>)
              else (Failed, m1\<lparr>injector := inject css (injector m1)\<rparr>))"

definition waitFor :: "platform \<Rightarrow> string \<Rightarrow> bool" where
  \<comment> \<open>\<open>FontLoader.waitFor\<close>: the probe element is removed again, whatever the outcome\<close>
  "waitFor p family = probe_detects p family"

subsection \<open>FontMetrics\<close>

record text_style =
  style_size :: jsval
  lineHeight :: jsval

definition size_of :: "text_style \<Rightarrow> number" where
  \<comment> \<open>the local \<open>size\<close> of \<open>estimateLineHeight\<close>: \<open>toUnitless(style.size || 16)\<close>\<close>
  "size_of st = toUnitless (if truthy (style_size st) then style_size st else JNum (Fin 16))"

definition estimateLineHeight :: "text_style \<Rightarrow> number" where
  "estimateLineHeight st =
     (let size = size_of st;
          lh = lineHeight st
      in if is_nullish lh then num_mul size (Fin (5 / 4))
         else if isNumber lh then num_mul size (toUnitless lh)
         else if isString lh \<and> endsWith (String lh) ''px'' then parseFloat (String lh)
         else if isString lh \<and> endsWith (String lh) ''%''
           then num_mul size (num_div (parseFloat (String lh)) (Fin 100))
         else num_mul size (parseFloat (String lh)))"

subsection \<open>Helpers for parsing the CSS settings of an element\<close>

text \<open>
  The three regular expressions of \<open>parseAxis\<close> and \<open>parseFeatures\<close> start alike,
  \<^verbatim>\<open>"([A-Za-z0-9]{3,4})"\s+\<close>, and end in one more group. Every piece is deterministic:
  a class that is repeated greedily is always followed by a character outside the class,
  so backtracking never finds a match that the longest run does not give.
\<close>

definition tag_re :: "string \<Rightarrow> (string \<times> string) option" where
  \<comment> \<open>\<^verbatim>\<open>"([A-Za-z0-9]{3,4})"\s+\<close> at the head of the string: the first group, and what
      follows the white space\<close>
  "tag_re s =
     (case s of
        [] \<Rightarrow> None
      | c # s1 \<Rightarrow>
          if c \<noteq> dq then None
          else
            let tag = takeWhile is_alnum s1; s2 = dropWhile is_alnum s1
            in if length tag = 3 \<or> length tag = 4 then
                 (case s2 of
                    [] \<Rightarrow> None
                  | c2 # s3 \<Rightarrow>
                      if c2 = dq \<and> takeWhile is_space s3 \<noteq> []
                      then Some (tag, dropWhile is_space s3) else None)
               else None)"

definition integer_re :: "string \<Rightarrow> string option" where
  \<comment> \<open>\<^verbatim>\<open>(-?\d+)\<close> at the head of the string: the text of the group\<close>
  "integer_re s =
     (let (sgn, s1) = (case s of
                         [] \<Rightarrow> ([], s)
                       | c # cs \<Rightarrow> if c = CHR ''-'' then (''-'', cs) else ([], s));
          ip = takeWhile is_digit s1
      in if ip = [] then None else Some (sgn @ ip))"

definition decimal_re :: "string \<Rightarrow> string option" where
  \<comment> \<open>\<^verbatim>\<open>(-?\d+(\.\d+)?)\<close> at the head of the string: the text of the outer group\<close>
  "decimal_re s =
     (case integer_re s of
        None \<Rightarrow> None
      | Some ip \<Rightarrow>
          (case drop (length ip) s of
             [] \<Rightarrow> Some ip
           | c # s3 \<Rightarrow>
               if c = CHR ''.'' \<and> takeWhile is_digit s3 \<noteq> []
               then Some (ip @ ''.'' @ takeWhile is_digit s3)
               else Some ip))"

definition flag_re :: "string \<Rightarrow> string option" where
  \<comment> \<open>\<^verbatim>\<open>(on|off)\<close> at the head of the string\<close>
  "flag_re s =
     (if starts_with ''on'' s then Some ''on''
      else if starts_with ''off'' s then Some ''off'' else None)"

function (sequential) exec_loop ::
  "(string \<Rightarrow> string option) \<Rightarrow> (string \<Rightarrow> jsval) \<Rightarrow> string \<Rightarrow> object \<Rightarrow> object" where
  "exec_loop value_re conv [] out = out"
| "exec_loop value_re conv (c # cs) out =
     (case tag_re (c # cs) of
        None \<Rightarrow> exec_loop value_re conv cs out
      | Some (tag, s1) \<Rightarrow>
          (case value_re s1 of
             None \<Rightarrow> exec_loop value_re conv cs out
           | Some m2 \<Rightarrow>
               exec_loop value_re conv (drop (length m2) s1) (obj_set out tag (conv m2))))"
  by pat_completeness auto
termination
proof (relation "measure (\<lambda>(value_re, conv, s, out). length s)")
  fix value_re :: "string \<Rightarrow> string option" and conv :: "string \<Rightarrow> jsval"
  fix c :: char and cs :: string and out :: object
  fix x2 :: "string \<times> string" and tag s1 m2 :: string
  assume m: "tag_re (c # cs) = Some x2" "(tag, s1) = x2"
  from m obtain s0 s3 where d: "dropWhile is_alnum s0 = dq # s3" and s0: "c # cs = dq # s0"
    and r: "s1 = dropWhile is_space s3"
    by (auto simp: tag_re_def Let_def split: list.splits if_splits)
  have "length (dropWhile is_alnum s0) \<le> length s0" by (rule length_dropWhile_le)
  with d have "length s3 < length s0" by simp
  moreover have "length s1 \<le> length s3" unfolding r by (rule length_dropWhile_le)
  ultimately have "length (drop (length m2) s1) < length (c # cs)" using s0 by simp
  then show "((value_re, conv, drop (length m2) s1, obj_set out tag (conv m2)),
      (value_re, conv, c # cs, out)) \<in> measure (\<lambda>(value_re, conv, s, out). length s)"
    by simp
qed simp_all

text \<open>
  \<open>exec_loop\<close> is the loop \<^verbatim>\<open>while ((m = re.exec(s))) out[m[1]] = conv(m[2])\<close> for a
  global regular expression of that shape: the leftmost match at or after \<open>lastIndex\<close>
  is taken, the property is written, and the search goes on behind the match.
\<close>

definition parseAxis :: "string \<Rightarrow> object" where
  "parseAxis s = (if s = [] then [] else exec_loop decimal_re (\<lambda>m2. JNum (parseFloat m2)) s [])"

definition parseFeatures :: "string \<Rightarrow> object" where
  "parseFeatures s =
     (if s = [] then []
      else
        let out1 = exec_loop integer_re (\<lambda>m2. JNum (parseInt10 m2)) s []
        in exec_loop flag_re (\<lambda>m2. JNum (if m2 = ''on'' then Fin 1 else Fin 0)) s out1)"

definition weight_re_at :: "string \<Rightarrow> bool" where
  \<comment> \<open>\<^verbatim>\<open>\d+\s+\d+\<close> at the head of the string\<close>
  "weight_re_at s =
     (let d1 = takeWhile is_digit s;
          ws = takeWhile is_space (dropWhile is_digit s);
          s2 = dropWhile is_space (dropWhile is_digit s)
      in d1 \<noteq> [] \<and> ws \<noteq> [] \<and> (case s2 of [] \<Rightarrow> False | c # cs \<Rightarrow> is_digit c))"

fun weight_re_test :: "string \<Rightarrow> bool" where
  \<comment> \<open>\<^verbatim>\<open>/\d+\s+\d+/.test(w)\<close>: a match anywhere in the string\<close>
  "weight_re_test [] = False"
| "weight_re_test (c # cs) = (weight_re_at (c # cs) \<or> weight_re_test cs)"

function (sequential) split_ws :: "string \<Rightarrow> string \<Rightarrow> string list" where
  \<comment> \<open>\<^verbatim>\<open>w.split(/\s+/)\<close>; the first argument is the piece read so far\<close>
  "split_ws cur [] = [cur]"
| "split_ws cur (c # cs) =
     (if is_space c then cur # split_ws [] (dropWhile is_space cs) else split_ws (cur @ [c]) cs)"
  by pat_completeness auto
termination
  by (relation "measure (\<lambda>(cur, s). length s)") (auto simp: length_dropWhile_le le_imp_less_Suc)

definition supportsVariableWeight :: "font \<Rightarrow> bool" where
  "supportsVariableWeight f =
     (case read_prop (weight (font_descriptors f)) of
        JStr w \<Rightarrow> weight_re_test w
      | _ \<Rightarrow> False)"

definition supportsWeightRange :: "font \<Rightarrow> number \<times> number \<Rightarrow> bool" where
  "supportsWeightRange f wr =
     (let w = read_prop (weight (font_descriptors f)); mn = fst wr; mx = snd wr
      in if isString w \<and> weight_re_test (String w) then
           (case map parseInt10 (split_ws [] (String w)) of
              a # b # rest \<Rightarrow> num_le a mn \<and> num_le mx b
            | _ \<Rightarrow> False)
         else if isNumber w then num_le mn (toUnitless w) \<and> num_le (toUnitless w) mx
         else True)"

definition scoreLang :: "string list \<Rightarrow> string list \<Rightarrow> int" where
  "scoreLang fontLangs desired =
     (if fontLangs = [] then 0 else int (length (filter (\<lambda>d. d \<in> set fontLangs) desired)))"

subsection \<open>FontManager\<close>

definition loadFont ::
  "platform \<Rightarrow> font_descriptor option \<Rightarrow> manager \<Rightarrow> (error + load_outcome) \<times> manager" where
  "loadFont p desc m =
     (case desc of
        None \<Rightarrow> (Inl InvalidDescriptor, m)
      | Some d \<Rightarrow>
          (case (name d, src d) of
             (Some nm, Some srcList) \<Rightarrow>
               if nm = [] \<or> srcList = [] then (Inl InvalidDescriptor, m)
               else
                 let given = (case descriptors d of
                                None \<Rightarrow> \<lparr>style = None, weight = None, stretch = None,
                                          display = None, unicodeRange = None\<rparr>
                              | Some ds \<Rightarrow> ds);
                     normalized =
                       \<lparr>font_name = nm, font_src = srcList,
                        font_descriptors =
                          (case display given of
                             None \<Rightarrow> given\<lparr>display := Some (JStr ''swap'')\<rparr>
                           | Some x \<Rightarrow> given),
                        font_axes = axes d, font_features = features d,
                        font_fallback = (case fallback d of
                                           None \<Rightarrow> defaultFallback m
                                         | Some fb \<Rightarrow> fb),
                        font_languages = (case languages d of None \<Rightarrow> [] | Some ls \<Rightarrow> ls)\<rparr>;
                     (result, m1) = loader_load p normalized m;
                     m2 = m1\<lparr>registry := registry_set (registry m1) nm normalized\<rparr>;
                     m3 = emit (LoadEvent nm result) m2;
                     ok = waitFor p nm;
                     m4 = emit (ReadyEvent nm ok) m3
                 in (Inr \<lparr>outcome_name = nm, outcome_ok = ok, outcome_result = result\<rparr>, m4)
           | _ \<Rightarrow> (Inl InvalidDescriptor, m)))"

fun langMatches :: "string set \<Rightarrow> font list \<Rightarrow> string list" where
  \<comment> \<open>the first loop of \<open>composeFamily\<close>, over \<open>registry.all()\<close>\<close>
  "langMatches langSet [] = []"
| "langMatches langSet (f # fs) =
     (if font_languages f = [] then langMatches langSet fs
      else if list_ex (\<lambda>l. l \<in> langSet) (font_languages f)
        then font_name f # langMatches langSet fs
      else langMatches langSet fs)"

definition add_part :: "string option \<Rightarrow> string list \<Rightarrow> string list" where
  \<comment> \<open>the local function \<open>add\<close>: a missing or empty name adds nothing\<close>
  "add_part nm parts =
     (case nm of None \<Rightarrow> parts | Some n \<Rightarrow> if n = [] then parts else parts @ [cssEscape n])"

definition composeFamily ::
  "manager \<Rightarrow> string option \<Rightarrow> string list option \<Rightarrow> string list option \<Rightarrow> string" where
  "composeFamily m primary fallback_arg languages_arg =
     (let wanted = (case languages_arg of
                      None \<Rightarrow> [defaultLanguage m]
                    | Some ls \<Rightarrow> if ls = [] then [defaultLanguage m] else ls);
          langSet = set (filter (\<lambda>l. l \<noteq> []) wanted);
          lms = langMatches langSet (registry_all (registry m));
          parts1 = add_part primary [];
          parts2 = foldl (\<lambda>parts lm. if Some lm \<noteq> primary then add_part (Some lm) parts else parts)
                     parts1 lms;
          parts3 = foldl (\<lambda>parts fb. add_part (Some fb) parts) parts2
                     (case fallback_arg of None \<Rightarrow> defaultFallback m | Some fb \<Rightarrow> fb)
      in join '', '' parts3)"


record element =
  fontVariationSettings :: string
  fontFeatureSettings :: string

text \<open>
  The two properties of \<open>el.style\<close> that the axis and feature utilities read and write.
  The style object keeps the string it is given: the model is an element whose style is
  a plain store, without the validation and the serialisation of a CSS engine.
\<close>

definition setAxis :: "element \<Rightarrow> string \<Rightarrow> jsval \<Rightarrow> element" where
  "setAxis el axisName v =
     (let current = obj_set (parseAxis (fontVariationSettings el)) axisName v
      in el\<lparr>fontVariationSettings := axisToString (Some current)\<rparr>)"

definition getAxis :: "element \<Rightarrow> string \<Rightarrow> jsval option" where
  "getAxis el axisName = obj_get (parseAxis (fontVariationSettings el)) axisName"

definition setFeature :: "element \<Rightarrow> string \<Rightarrow> jsval \<Rightarrow> element" where
  "setFeature el featureName v =
     (let current = obj_set (parseFeatures (fontFeatureSettings el)) featureName v
      in el\<lparr>fontFeatureSettings := featuresToString (Some current)\<rparr>)"

definition getFeature :: "element \<Rightarrow> string \<Rightarrow> jsval option" where
  "getFeature el featureName = obj_get (parseFeatures (fontFeatureSettings el)) featureName"

record criteria =
  wanted_languages :: "string list option"
  variable :: "bool option"
  weightRange :: "(number \<times> number) option"
  prefer_arg :: "string option"

fun insert_by :: "('a \<Rightarrow> 'a \<Rightarrow> int) \<Rightarrow> 'a \<Rightarrow> 'a list \<Rightarrow> 'a list" where
  "insert_by cmp x [] = [x]"
| "insert_by cmp x (y # ys) = (if cmp x y \<le> 0 then x # y # ys else y # insert_by cmp x ys)"

definition sort_by :: "('a \<Rightarrow> 'a \<Rightarrow> int) \<Rightarrow> 'a list \<Rightarrow> 'a list" where
  \<comment> \<open>\<open>Array.prototype.sort\<close> with a comparator: a stable sort\<close>
  "sort_by cmp xs = foldr (insert_by cmp) xs []"

definition prefers :: "string option \<Rightarrow> font \<Rightarrow> bool" where
  \<comment> \<open>\<open>f.name.toLowerCase().includes(prefer.toLowerCase())\<close>\<close>
  "prefers pr f =
     (case pr of
        None \<Rightarrow> False
      | Some q \<Rightarrow> includes_str (toLowerCase (font_name f)) (toLowerCase q))"

definition has_preference :: "string option \<Rightarrow> bool" where
  \<comment> \<open>the test \<open>prefer ? ... : ...\<close>: an empty string counts as absent\<close>
  "has_preference pr = (case pr of None \<Rightarrow> False | Some q \<Rightarrow> q \<noteq> [])"

fun select_matches ::
  "string list \<Rightarrow> bool \<Rightarrow> (number \<times> number) option \<Rightarrow> string option \<Rightarrow> font list \<Rightarrow> font list" where
  \<comment> \<open>the loop of \<open>select\<close> over \<open>registry.all()\<close>\<close>
  "select_matches langs var wr pr [] = []"
| "select_matches langs var wr pr (f # fs) =
     (let hasLang = (font_languages f = [] \<or> list_ex (\<lambda>l. l \<in> set langs) (font_languages f));
          hasVar = (if var then supportsVariableWeight f else True);
          weightOk = (case wr of None \<Rightarrow> True | Some r \<Rightarrow> supportsWeightRange f r);
          preferred = (if has_preference pr then prefers pr f else True)
      in if hasLang \<and> hasVar \<and> weightOk \<and> preferred
         then f # select_matches langs var wr pr fs
         else select_matches langs var wr pr fs)"

definition select_compare :: "platform \<Rightarrow> string list \<Rightarrow> string option \<Rightarrow> font \<Rightarrow> font \<Rightarrow> int" where
  \<comment> \<open>the comparator that \<open>select\<close> sorts with\<close>
  "select_compare p langs pr a b =
     (let avar = (if supportsVariableWeight a then 1 else 0);
          bvar = (if supportsVariableWeight b then 1 else 0);
          alang = scoreLang (font_languages a) langs;
          blang = scoreLang (font_languages b) langs;
          ap = (if prefers pr a then 1 else 0);
          bp = (if prefers pr b then 1 else 0)
      in if avar \<noteq> bvar then bvar - avar
         else if alang \<noteq> blang then blang - alang
         else if has_preference pr \<and> ap \<noteq> bp then bp - ap
         else localeCompare p (font_name a) (font_name b))"

definition select :: "platform \<Rightarrow> manager \<Rightarrow> criteria \<Rightarrow> font list" where
  "select p m c =
     (let langs = (case wanted_languages c of None \<Rightarrow> [defaultLanguage m] | Some ls \<Rightarrow> ls);
          var = (case variable c of None \<Rightarrow> True | Some b \<Rightarrow> b);
          matches = select_matches langs var (weightRange c) (prefer_arg c) (registry_all (registry m))
      in sort_by (select_compare p langs (prefer_arg c)) matches)"


subsection \<open>A manager and a platform to run the model on\<close>

definition new_FontManager :: "string \<Rightarrow> manager" where
  \<comment> \<open>the constructor, with the default fallback chain; the argument is the value of
      \<open>defaultLanguage || detectLanguage()\<close>\<close>
  "new_FontManager lang =
     \<lparr>injector = new_StyleInjector, registry = [], emitted = [], document_fonts = [],
      load_requests = [], defaultLanguage = lang,
      defaultFallback =
        [''system-ui'', ''Segoe UI'', ''Apple SD Gothic Neo'', ''Noto Sans KR'', ''sans-serif'']\<rparr>"

definition code_unit_compare :: "string \<Rightarrow> string \<Rightarrow> int" where
  \<comment> \<open>a collation to run examples with: the lexicographic order of the code units\<close>
  "code_unit_compare a b = (if a < b then - 1 else if b < a then 1 else 0)"

definition example_platform :: platform where
  "example_platform =
     \<lparr>supportsFontFace = True, fontface_loads = (\<lambda>f. True), probe_detects = (\<lambda>family. True),
      localeCompare = code_unit_compare\<rparr>"

definition descriptor_of :: "string \<Rightarrow> font_source list \<Rightarrow> font_descriptor" where
  \<comment> \<open>the descriptor \<open>{name, src}\<close>\<close>
  "descriptor_of nm srcList =
     \<lparr>name = Some nm, src = Some srcList, descriptors = None, axes = None, features = None,
      fallback = None, languages = None\<rparr>"

definition font_of :: "string \<Rightarrow> jsval option \<Rightarrow> string list \<Rightarrow> font" where
  \<comment> \<open>the normalized form of the descriptor \<open>{name, src: [{url: '/fonts/f.woff2', format:
      'woff2'}], descriptors: {weight}, languages}\<close>, loaded by a manager with an empty
      default fallback chain\<close>
  "font_of nm w ls =
     \<lparr>font_name = nm, font_src = [\<lparr>url = ''/fonts/f.woff2'', format = Some ''woff2''\<rparr>],
      font_descriptors = \<lparr>style = None, weight = w, stretch = None,
                          display = Some (JStr ''swap''), unicodeRange = None\<rparr>,
      font_axes = None, font_features = None, font_fallback = [], font_languages = ls\<rparr>"

definition register :: "font \<Rightarrow> manager \<Rightarrow> manager" where
  \<comment> \<open>\<open>this.registry.set(normalized.name, normalized)\<close>\<close>
  "register f m = m\<lparr>registry := registry_set (registry m) (font_name f) f\<rparr>"

subsection \<open>The ranking and the weight pattern, in the words of the specification\<close>

text \<open>
  Two definitions that are not taken from the source: they say what the specification
  says, to compare the source with. \<open>ranked_before\<close> is the order "variable-weight
  support descending, then language-match count descending, then preference match
  descending, then name ascending"; \<open>range_pattern\<close> is "the string contains a
  \<open><min> <max>\<close> pattern": digits, white space, digits.
\<close>

definition ranked_before :: "platform \<Rightarrow> string list \<Rightarrow> string option \<Rightarrow> font \<Rightarrow> font \<Rightarrow> bool" where
  "ranked_before p langs pr a b =
     ((supportsVariableWeight a \<and> \<not> supportsVariableWeight b) \<or>
      (supportsVariableWeight a = supportsVariableWeight b \<and>
       (scoreLang (font_languages b) langs < scoreLang (font_languages a) langs \<or>
        (scoreLang (font_languages a) langs = scoreLang (font_languages b) langs \<and>
         ((has_preference pr \<and> prefers pr a \<and> \<not> prefers pr b) \<or>
          ((has_preference pr \<longrightarrow> prefers pr a = prefers pr b) \<and>
           localeCompare p (font_name a) (font_name b) \<le> 0))))))"

definition range_pattern :: "string \<Rightarrow> bool" where
  "range_pattern w =
     (\<exists>pre d1 ws d2 post. w = pre @ d1 @ ws @ d2 @ post \<and>
        d1 \<noteq> [] \<and> list_all is_digit d1 \<and> ws \<noteq> [] \<and> list_all is_space ws \<and>
        d2 \<noteq> [] \<and> list_all is_digit d2)"

section \<open>Properties\<close>

subsection \<open>StyleInjector\<close>

lemma inject_effect:
  "appended_nodes (inject c si) =
     (if c \<in> rules si then appended_nodes si else appended_nodes si @ [c])"
  "rules (inject c si) = insert c (rules si)"
  by (cases "styleEl si";
      auto simp: inject_def Let_def ensureNode_def appended_nodes_def)+

lemma inject_fold_state:
  "appended_nodes (fold inject cs new_StyleInjector) = rev (remdups (rev cs)) \<and>
   rules (fold inject cs new_StyleInjector) = set cs"
proof (induction cs rule: rev_induct)
  case Nil
  show ?case by (simp add: new_StyleInjector_def appended_nodes_def)
next
  case (snoc c cs)
  then show ?case by (simp add: inject_effect)
qed

lemma inject_twice: "inject c (inject c si) = inject c si"
  by (cases "styleEl si") (auto simp: inject_def Let_def ensureNode_def appended_nodes_def)

text \<open>
  C7. On a new injector, after any sequence \<open>cs\<close> of calls of \<open>inject\<close>, the text nodes
  of the style element are the first occurrences of the texts of \<open>cs\<close>, in the order of
  those first occurrences: every distinct text was appended exactly once. On any
  injector, a second call with the same text changes nothing.
\<close>

theorem inject_once_in_first_order:
  "appended_nodes (fold inject cs new_StyleInjector) = rev (remdups (rev cs)) \<and>
   distinct (appended_nodes (fold inject cs new_StyleInjector)) \<and>
   set (appended_nodes (fold inject cs new_StyleInjector)) = set cs \<and>
   inject c (inject c si) = inject c si"
  using inject_fold_state [of cs] inject_twice [of c si] by simp

subsection \<open>loadFont\<close>

text \<open>
  C3. When the descriptor is missing, has no name or an empty one, or has no source list
  or an empty one, \<open>loadFont\<close> fails with the validation error and leaves the whole
  state as it was: the registry, the started loads, the injected rules, the emitted
  events.
\<close>

theorem loadFont_rejects_invalid:
  assumes "desc = None \<or>
    (\<exists>d. desc = Some d \<and>
       (name d = None \<or> name d = Some [] \<or> src d = None \<or> src d = Some []))"
  shows "loadFont p desc m = (Inl InvalidDescriptor, m)"
  using assms by (auto simp: loadFont_def split: option.splits)

theorem loadFont_rejects_invalid_witness:
  "loadFont example_platform (Some (descriptor_of ''X'' [])) (new_FontManager ''ko'') =
     (Inl InvalidDescriptor, new_FontManager ''ko'') \<and>
   registry (snd (loadFont example_platform (Some (descriptor_of ''X'' []))
     (new_FontManager ''ko''))) = [] \<and>
   load_requests (snd (loadFont example_platform (Some (descriptor_of ''X'' []))
     (new_FontManager ''ko''))) = []"
proof -
  have "Some (descriptor_of ''X'' []) = None \<or>
     (\<exists>d. Some (descriptor_of ''X'' []) = Some d \<and>
        (name d = None \<or> name d = Some [] \<or> src d = None \<or> src d = Some []))"
    by (simp add: descriptor_of_def)
  from loadFont_rejects_invalid [OF this, of example_platform "new_FontManager ''ko''"]
  show ?thesis by (simp add: new_FontManager_def)
qed

text \<open>
  C8. A call of \<open>loadFont\<close> that succeeds has emitted exactly two events, after those
  emitted before the call: first \<open>load\<close>, then \<open>ready\<close>, both for the name of the
  descriptor.
\<close>

theorem loadFont_load_before_ready:
  assumes "loadFont p desc m = (Inr r, m')"
  shows "\<exists>result. emitted m' =
     emitted m @ [LoadEvent (outcome_name r) result, ReadyEvent (outcome_name r) (outcome_ok r)]"
  using assms
  by (auto simp: loadFont_def Let_def emit_def loader_load_def
      split: option.splits if_splits prod.splits)

theorem loadFont_load_before_ready_witness:
  "fst (loadFont example_platform
      (Some (descriptor_of ''Inter'' [\<lparr>url = ''/fonts/Inter.var.woff2'', format = Some ''woff2''\<rparr>]))
      (new_FontManager ''ko'')) =
     Inr \<lparr>outcome_name = ''Inter'', outcome_ok = True, outcome_result = Loaded ''Inter''\<rparr> \<and>
   emitted (snd (loadFont example_platform
      (Some (descriptor_of ''Inter'' [\<lparr>url = ''/fonts/Inter.var.woff2'', format = Some ''woff2''\<rparr>]))
      (new_FontManager ''ko''))) =
     [LoadEvent ''Inter'' (Loaded ''Inter''), ReadyEvent ''Inter'' True]"
proof -
  let ?d = "Some (descriptor_of ''Inter''
    [\<lparr>url = ''/fonts/Inter.var.woff2'', format = Some ''woff2''\<rparr>])"
  let ?r = "\<lparr>outcome_name = ''Inter'', outcome_ok = True, outcome_result = Loaded ''Inter''\<rparr>"
  have h: "loadFont example_platform ?d (new_FontManager ''ko'') =
      (Inr ?r, snd (loadFont example_platform ?d (new_FontManager ''ko'')))"
    by (simp add: loadFont_def descriptor_of_def example_platform_def loader_load_def
        waitFor_def Let_def)
  have r: "fst (loadFont example_platform ?d (new_FontManager ''ko'')) = Inr ?r"
    using h by (metis fst_conv)
  have l: "outcome_result ?r = Loaded ''Inter''" by simp
  from loadFont_load_before_ready [OF h] obtain result where
    e: "emitted (snd (loadFont example_platform ?d (new_FontManager ''ko''))) =
      emitted (new_FontManager ''ko'') @ [LoadEvent ''Inter'' result, ReadyEvent ''Inter'' True]"
    by auto
  have "result = Loaded ''Inter''"
    using e by (simp add: loadFont_def descriptor_of_def example_platform_def loader_load_def
        waitFor_def Let_def emit_def new_FontManager_def)
  with e r show ?thesis by (simp add: new_FontManager_def)
qed


subsection \<open>supportsWeightRange and select\<close>

lemma set_insert_by: "set (insert_by cmp x ys) = insert x (set ys)"
  by (induction ys) auto

lemma set_sort_by: "set (sort_by cmp xs) = set xs"
  by (induction xs) (simp_all add: sort_by_def set_insert_by)

lemma mset_insert_by: "mset (insert_by cmp x ys) = add_mset x (mset ys)"
  by (induction ys) auto

lemma mset_sort_by: "mset (sort_by cmp xs) = mset xs"
  by (induction xs) (simp_all add: sort_by_def mset_insert_by)

lemma sorted_insert_by:
  assumes tr: "\<And>a b c. cmp a b \<le> 0 \<Longrightarrow> cmp b c \<le> 0 \<Longrightarrow> cmp a c \<le> (0::int)"
    and tot: "\<And>a b. 0 < cmp a b \<Longrightarrow> cmp b a \<le> 0"
    and s: "sorted_wrt (\<lambda>a b. cmp a b \<le> 0) ys"
  shows "sorted_wrt (\<lambda>a b. cmp a b \<le> 0) (insert_by cmp x ys)"
  using s
proof (induction ys)
  case Nil
  then show ?case by simp
next
  case (Cons y ys)
  show ?case
  proof (cases "cmp x y \<le> 0")
    case True
    with Cons.prems show ?thesis by (auto intro: tr)
  next
    case False
    then have "cmp y x \<le> 0" using tot [of x y] by simp
    with False Cons show ?thesis by (auto simp: set_insert_by)
  qed
qed

lemma sorted_sort_by:
  assumes tr: "\<And>a b c. cmp a b \<le> 0 \<Longrightarrow> cmp b c \<le> 0 \<Longrightarrow> cmp a c \<le> (0::int)"
    and tot: "\<And>a b. 0 < cmp a b \<Longrightarrow> cmp b a \<le> 0"
  shows "sorted_wrt (\<lambda>a b. cmp a b \<le> 0) (sort_by cmp xs)"
  by (induction xs) (simp_all add: sort_by_def sorted_insert_by [OF tr tot])

lemma select_compare_ranked:
  "select_compare p langs pr a b \<le> 0 \<longleftrightarrow> ranked_before p langs pr a b"
  by (auto simp: select_compare_def ranked_before_def Let_def)

lemma ranked_total:
  assumes "\<And>x y. 0 < localeCompare p x y \<Longrightarrow> localeCompare p y x \<le> 0"
  shows "\<not> ranked_before p langs pr a b \<Longrightarrow> ranked_before p langs pr b a"
  using assms [of "font_name a" "font_name b"]
  unfolding ranked_before_def by (cases "has_preference pr") force+

lemma ranked_trans:
  assumes "\<And>x y z. localeCompare p x y \<le> 0 \<Longrightarrow> localeCompare p y z \<le> 0 \<Longrightarrow> localeCompare p x z \<le> 0"
  shows "ranked_before p langs pr a b \<Longrightarrow> ranked_before p langs pr b c \<Longrightarrow> ranked_before p langs pr a c"
  using assms [of "font_name a" "font_name b" "font_name c"]
  unfolding ranked_before_def by (cases "has_preference pr") (auto; linarith?)+

lemma digit_not_space: "is_digit c \<Longrightarrow> \<not> is_space c"
  by (auto simp: is_digit_def is_space_def)

lemma takeWhile_all: "list_all P xs \<Longrightarrow> (ys = [] \<or> \<not> P (hd ys)) \<Longrightarrow> takeWhile P (xs @ ys) = xs"
  by (cases ys) (auto simp: list_all_iff)

lemma dropWhile_all: "list_all P xs \<Longrightarrow> (ys = [] \<or> \<not> P (hd ys)) \<Longrightarrow> dropWhile P (xs @ ys) = ys"
  by (cases ys) (auto simp: list_all_iff)

lemma weight_re_at_iff:
  "weight_re_at s \<longleftrightarrow>
     (\<exists>d1 ws c post. s = d1 @ ws @ c # post \<and> d1 \<noteq> [] \<and> list_all is_digit d1 \<and>
        ws \<noteq> [] \<and> list_all is_space ws \<and> is_digit c)"
proof
  assume a: "weight_re_at s"
  let ?d1 = "takeWhile is_digit s" and ?r = "dropWhile is_digit s"
  let ?ws = "takeWhile is_space ?r" and ?r2 = "dropWhile is_space ?r"
  from a obtain c post where r2: "?r2 = c # post" and c: "is_digit c"
    and n: "?d1 \<noteq> []" "?ws \<noteq> []"
    by (auto simp: weight_re_at_def Let_def split: list.splits)
  have "s = ?d1 @ ?ws @ ?r2" by simp
  with r2 have "s = ?d1 @ ?ws @ c # post" by simp
  moreover have "list_all is_digit ?d1" "list_all is_space ?ws"
    by (simp_all add: list_all_iff) (auto dest: set_takeWhileD)
  ultimately show "\<exists>d1 ws c post. s = d1 @ ws @ c # post \<and> d1 \<noteq> [] \<and> list_all is_digit d1 \<and>
        ws \<noteq> [] \<and> list_all is_space ws \<and> is_digit c"
    using n c by blast
next
  assume "\<exists>d1 ws c post. s = d1 @ ws @ c # post \<and> d1 \<noteq> [] \<and> list_all is_digit d1 \<and>
        ws \<noteq> [] \<and> list_all is_space ws \<and> is_digit c"
  then obtain d1 ws c post where s: "s = d1 @ ws @ c # post" and d1: "d1 \<noteq> []" "list_all is_digit d1"
    and ws: "ws \<noteq> []" "list_all is_space ws" and c: "is_digit c" by blast
  have h: "\<not> is_digit (hd (ws @ c # post))"
    using ws digit_not_space [of "hd ws"] by (cases ws) auto
  have t1: "takeWhile is_digit s = d1" and t2: "dropWhile is_digit s = ws @ c # post"
    unfolding s using d1 h by (simp_all add: takeWhile_all dropWhile_all)
  have t3: "takeWhile is_space (ws @ c # post) = ws" and t4: "dropWhile is_space (ws @ c # post) = c # post"
    using ws c digit_not_space [of c] by (simp_all add: takeWhile_all dropWhile_all)
  show "weight_re_at s"
    using d1 ws c by (simp add: weight_re_at_def t1 t2 t3 t4 Let_def)
qed

lemma weight_re_at_test: "weight_re_at s \<Longrightarrow> weight_re_test s"
  by (cases s) (simp_all add: weight_re_at_def)

lemma weight_re_test_iff: "weight_re_test w \<longleftrightarrow> (\<exists>pre s. w = pre @ s \<and> weight_re_at s)"
proof (induction w)
  case Nil
  show ?case by (simp add: weight_re_at_def)
next
  case (Cons c cs)
  show ?case
  proof
    assume "weight_re_test (c # cs)"
    then consider "weight_re_at (c # cs)" | "weight_re_test cs" by auto
    then show "\<exists>pre s. c # cs = pre @ s \<and> weight_re_at s"
    proof cases
      case 1
      then show ?thesis by (metis append_Nil)
    next
      case 2
      with Cons obtain pre s where "cs = pre @ s" "weight_re_at s" by blast
      then show ?thesis by (metis append_Cons)
    qed
  next
    assume "\<exists>pre s. c # cs = pre @ s \<and> weight_re_at s"
    then obtain pre s where e: "c # cs = pre @ s" and a: "weight_re_at s" by blast
    show "weight_re_test (c # cs)"
    proof (cases pre)
      case Nil
      with e a show ?thesis by (metis append_Nil weight_re_at_test)
    next
      case (Cons x xs)
      with e have "cs = xs @ s" by simp
      with a Cons.IH have "weight_re_test cs" by blast
      then show ?thesis by simp
    qed
  qed
qed

lemma weight_re_test_pattern: "weight_re_test w \<longleftrightarrow> range_pattern w"
proof
  assume "weight_re_test w"
  then obtain pre d1 ws c post where "w = pre @ d1 @ ws @ [c] @ post" "d1 \<noteq> []"
    "list_all is_digit d1" "ws \<noteq> []" "list_all is_space ws" "is_digit c"
    unfolding weight_re_test_iff weight_re_at_iff by auto
  then show "range_pattern w"
    unfolding range_pattern_def
    by (intro exI [of _ pre] exI [of _ d1] exI [of _ ws] exI [of _ "[c]"] exI [of _ post]) simp
next
  assume "range_pattern w"
  then obtain pre d1 ws d2 post where w: "w = pre @ d1 @ ws @ d2 @ post" and
    f: "d1 \<noteq> []" "list_all is_digit d1" "ws \<noteq> []" "list_all is_space ws"
    "d2 \<noteq> []" "list_all is_digit d2"
    unfolding range_pattern_def by blast
  from f obtain c d3 where d2: "d2 = c # d3" and c: "is_digit c" by (cases d2) auto
  have "weight_re_at (d1 @ ws @ c # (d3 @ post))"
    unfolding weight_re_at_iff using f c by blast
  then have "\<exists>s. w = pre @ s \<and> weight_re_at s"
    unfolding w d2 by (intro exI [of _ "d1 @ ws @ c # (d3 @ post)"]) simp
  then show "weight_re_test w"
    unfolding weight_re_test_iff by blast
qed

lemma starts_with_iff: "starts_with q s \<longleftrightarrow> (\<exists>post. s = q @ post)"
  by (induction q s rule: starts_with.induct) auto

lemma starts_with_includes: "starts_with q s \<Longrightarrow> includes_str s q"
  by (cases s; cases q) auto

lemma includes_str_iff: "includes_str s q \<longleftrightarrow> (\<exists>pre post. s = pre @ q @ post)"
proof (induction s)
  case Nil
  show ?case by auto
next
  case (Cons c cs)
  show ?case
  proof
    assume "includes_str (c # cs) q"
    then consider "starts_with q (c # cs)" | "includes_str cs q" by auto
    then show "\<exists>pre post. c # cs = pre @ q @ post"
    proof cases
      case 1
      then show ?thesis unfolding starts_with_iff by (metis append_Nil)
    next
      case 2
      with Cons obtain pre post where "cs = pre @ q @ post" by blast
      then show ?thesis by (metis append_Cons)
    qed
  next
    assume "\<exists>pre post. c # cs = pre @ q @ post"
    then obtain pre post where e: "c # cs = pre @ q @ post" by blast
    show "includes_str (c # cs) q"
    proof (cases pre)
      case Nil
      with e have "starts_with q (c # cs)" unfolding starts_with_iff by auto
      then show ?thesis by (rule starts_with_includes)
    next
      case (Cons x xs)
      with e have "cs = xs @ q @ post" by simp
      with Cons.IH show ?thesis by auto
    qed
  qed
qed

lemma select_matches_filter:
  "select_matches langs var wr pr fs =
     filter (\<lambda>f. (font_languages f = [] \<or> list_ex (\<lambda>l. l \<in> set langs) (font_languages f)) \<and>
                 (var \<longrightarrow> supportsVariableWeight f) \<and>
                 (case wr of None \<Rightarrow> True | Some r \<Rightarrow> supportsWeightRange f r) \<and>
                 (has_preference pr \<longrightarrow> prefers pr f)) fs"
  by (induction fs) (simp_all add: Let_def)

lemma code_unit_compare_total: "0 < code_unit_compare a b \<Longrightarrow> code_unit_compare b a \<le> 0"
  by (simp add: code_unit_compare_def split: if_splits)

lemma code_unit_compare_trans:
  "code_unit_compare a b \<le> 0 \<Longrightarrow> code_unit_compare b c \<le> 0 \<Longrightarrow> code_unit_compare a c \<le> 0"
  by (auto simp: code_unit_compare_def split: if_splits)

text \<open>
  C10. A font whose descriptors have no weight, or a weight that is neither a number nor
  a string with the range pattern, supports every requested weight range: whether
  \<open>select\<close> returns it does not depend on the \<open>weightRange\<close> criterion.
\<close>

theorem supportsWeightRange_without_weight:
  assumes "weight (font_descriptors f) = None \<or>
    (\<not> isNumber (read_prop (weight (font_descriptors f))) \<and>
     \<not> (isString (read_prop (weight (font_descriptors f))) \<and>
        weight_re_test (String (read_prop (weight (font_descriptors f))))))"
  shows "supportsWeightRange f (mn, mx) \<and>
    (f \<in> set (select p m c) \<longleftrightarrow> f \<in> set (select p m (c\<lparr>weightRange := None\<rparr>)))"
proof -
  from assms have w: "\<not> isNumber (read_prop (weight (font_descriptors f))) \<and>
     \<not> (isString (read_prop (weight (font_descriptors f))) \<and>
        weight_re_test (String (read_prop (weight (font_descriptors f)))))"
    by (auto simp: read_prop_def isNumber_def isString_def)
  then have s: "supportsWeightRange f r" for r
    by (auto simp: supportsWeightRange_def Let_def)
  have m: "f \<in> set (select p m c') \<longleftrightarrow>
      f \<in> set (registry_all (registry m)) \<and>
      (font_languages f = [] \<or> list_ex (\<lambda>l. l \<in> set (case wanted_languages c' of None \<Rightarrow> [defaultLanguage m] | Some ls \<Rightarrow> ls)) (font_languages f)) \<and>
      ((case variable c' of None \<Rightarrow> True | Some b \<Rightarrow> b) \<longrightarrow> supportsVariableWeight f) \<and>
      (has_preference (prefer_arg c') \<longrightarrow> prefers (prefer_arg c') f)" for c'
    using s by (cases "weightRange c'") (simp_all add: select_def Let_def set_sort_by select_matches_filter)
  show ?thesis
    using s unfolding m by simp
qed

theorem supportsWeightRange_without_weight_witness:
  "supportsWeightRange (font_of ''Inter'' None []) (Fin 300, Fin 500) \<and>
   font_of ''Inter'' None [] \<in> set (select example_platform
      (register (font_of ''Inter'' None []) (new_FontManager ''ko''))
      \<lparr>wanted_languages = None, variable = Some False, weightRange = Some (Fin 300, Fin 500),
       prefer_arg = None\<rparr>)"
proof -
  let ?f = "font_of ''Inter'' None []"
  let ?m = "register ?f (new_FontManager ''ko'')"
  let ?c = "\<lparr>wanted_languages = None, variable = Some False,
    weightRange = Some (Fin 300, Fin 500), prefer_arg = None\<rparr>"
  have h: "weight (font_descriptors ?f) = None \<or>
    (\<not> isNumber (read_prop (weight (font_descriptors ?f))) \<and>
     \<not> (isString (read_prop (weight (font_descriptors ?f))) \<and>
        weight_re_test (String (read_prop (weight (font_descriptors ?f))))))"
    by (simp add: font_of_def)
  have s: "?f \<in> set (select example_platform ?m (?c\<lparr>weightRange := None\<rparr>))"
    by (simp add: select_def register_def new_FontManager_def registry_set_def registry_all_def
        has_preference_def sort_by_def font_of_def)
  from supportsWeightRange_without_weight [OF h, of "Fin 300" "Fin 500" example_platform ?m ?c] s
  show ?thesis by simp
qed

text \<open>
  C6. \<open>select\<close> returns, each once, the registered fonts that pass the four filters:
  a declared language is wanted, or the font declares none; with \<open>variable\<close> not false,
  the weight of the descriptors is a string with the range pattern; the requested weight
  range is supported; the lower-cased name contains the lower-cased preference. When the
  collation of the platform is a total preorder, the result is sorted by the ranking.
  Over two registered fonts with the weights \<open>"100 900"\<close> and \<open>400\<close>, with \<open>variable\<close>
  true and neither weight range nor preference, the second font is never returned, and
  the first one is when it passes the language filter.
\<close>

theorem select_filters_and_ranks:
  "mset (select p m c) =
     mset (filter (\<lambda>f.
        (font_languages f = [] \<or>
         set (font_languages f) \<inter>
           set (case wanted_languages c of None \<Rightarrow> [defaultLanguage m] | Some ls \<Rightarrow> ls) \<noteq> {}) \<and>
        (variable c \<noteq> Some False \<longrightarrow> supportsVariableWeight f) \<and>
        (\<forall>r. weightRange c = Some r \<longrightarrow> supportsWeightRange f r) \<and>
        (\<forall>q. prefer_arg c = Some q \<and> q \<noteq> [] \<longrightarrow>
          (\<exists>pre post. toLowerCase (font_name f) = pre @ toLowerCase q @ post)))
      (registry_all (registry m))) \<and>
   (supportsVariableWeight f \<longleftrightarrow>
      (\<exists>w. weight (font_descriptors f) = Some (JStr w) \<and> range_pattern w)) \<and>
   ((\<forall>x y z. localeCompare p x y \<le> 0 \<and> localeCompare p y z \<le> 0 \<longrightarrow> localeCompare p x z \<le> 0) \<and>
    (\<forall>x y. 0 < localeCompare p x y \<longrightarrow> localeCompare p y x \<le> 0) \<longrightarrow>
      sorted_wrt (ranked_before p
          (case wanted_languages c of None \<Rightarrow> [defaultLanguage m] | Some ls \<Rightarrow> ls) (prefer_arg c))
        (select p m c)) \<and>
   (registry_all (registry m) = [f1, f2] \<and>
    weight (font_descriptors f1) = Some (JStr ''100 900'') \<and>
    weight (font_descriptors f2) = Some (JNum (Fin 400)) \<and>
    variable c \<noteq> Some False \<and> weightRange c = None \<and> prefer_arg c = None \<longrightarrow>
      select p m c =
        filter (\<lambda>f. font_languages f = [] \<or>
           set (font_languages f) \<inter>
             set (case wanted_languages c of None \<Rightarrow> [defaultLanguage m] | Some ls \<Rightarrow> ls) \<noteq> {})
          [f1])"
proof -
  let ?langs = "case wanted_languages c of None \<Rightarrow> [defaultLanguage m] | Some ls \<Rightarrow> ls"
  let ?var = "case variable c of None \<Rightarrow> True | Some b \<Rightarrow> b"
  have v: "?var = (variable c \<noteq> Some False)"
    by (cases "variable c") auto
  have sel: "select p m c = sort_by (select_compare p ?langs (prefer_arg c))
      (select_matches ?langs ?var (weightRange c) (prefer_arg c) (registry_all (registry m)))"
    by (simp add: select_def Let_def)
  have pr: "(has_preference (prefer_arg c) \<longrightarrow> prefers (prefer_arg c) g) =
      (\<forall>q. prefer_arg c = Some q \<and> q \<noteq> [] \<longrightarrow>
          (\<exists>pre post. toLowerCase (font_name g) = pre @ toLowerCase q @ post))" for g
    by (cases "prefer_arg c") (auto simp: has_preference_def prefers_def includes_str_iff)
  have wr: "(case weightRange c of None \<Rightarrow> True | Some r \<Rightarrow> supportsWeightRange g r) =
      (\<forall>r. weightRange c = Some r \<longrightarrow> supportsWeightRange g r)" for g
    by (cases "weightRange c") auto
  have la: "list_ex (\<lambda>l. l \<in> set ?langs) (font_languages g) =
      (set (font_languages g) \<inter> set ?langs \<noteq> {})" for g
    by (auto simp: list_ex_iff)
  have one: "mset (select p m c) =
     mset (filter (\<lambda>f.
        (font_languages f = [] \<or> set (font_languages f) \<inter> set ?langs \<noteq> {}) \<and>
        (variable c \<noteq> Some False \<longrightarrow> supportsVariableWeight f) \<and>
        (\<forall>r. weightRange c = Some r \<longrightarrow> supportsWeightRange f r) \<and>
        (\<forall>q. prefer_arg c = Some q \<and> q \<noteq> [] \<longrightarrow>
          (\<exists>pre post. toLowerCase (font_name f) = pre @ toLowerCase q @ post)))
      (registry_all (registry m)))"
    unfolding sel mset_sort_by select_matches_filter v pr wr la ..
  have two: "supportsVariableWeight f \<longleftrightarrow>
      (\<exists>w. weight (font_descriptors f) = Some (JStr w) \<and> range_pattern w)"
    by (auto simp: supportsVariableWeight_def read_prop_def weight_re_test_pattern
        split: option.splits jsval.splits)
  have three: "sorted_wrt (ranked_before p ?langs (prefer_arg c)) (select p m c)"
    if tr: "\<forall>x y z. localeCompare p x y \<le> 0 \<and> localeCompare p y z \<le> 0 \<longrightarrow> localeCompare p x z \<le> 0"
      and tot: "\<forall>x y. 0 < localeCompare p x y \<longrightarrow> localeCompare p y x \<le> 0"
  proof -
    let ?cmp = "select_compare p ?langs (prefer_arg c)"
    have t: "?cmp a b \<le> 0 \<Longrightarrow> ?cmp b d \<le> 0 \<Longrightarrow> ?cmp a d \<le> 0" for a b d
      unfolding select_compare_ranked using tr by (blast intro: ranked_trans)
    have o: "0 < ?cmp a b \<Longrightarrow> ?cmp b a \<le> 0" for a b
      using ranked_total [of p ?langs "prefer_arg c" a b] tot select_compare_ranked [of p ?langs "prefer_arg c"]
      by (metis not_less)
    have "sorted_wrt (\<lambda>a b. ?cmp a b \<le> 0) (select p m c)"
      unfolding sel by (rule sorted_sort_by [OF t o])
    then show ?thesis unfolding select_compare_ranked .
  qed
  have w1: "weight_re_test ''100 900''"
    by (simp add: weight_re_at_def is_digit_def is_space_def)
  have four: "select p m c = filter (\<lambda>f. font_languages f = [] \<or>
           set (font_languages f) \<inter> set ?langs \<noteq> {}) [f1]"
    if "registry_all (registry m) = [f1, f2]" "weight (font_descriptors f1) = Some (JStr ''100 900'')"
       "weight (font_descriptors f2) = Some (JNum (Fin 400))"
       "variable c \<noteq> Some False" "weightRange c = None" "prefer_arg c = None"
  proof -
    have "supportsVariableWeight f1" "\<not> supportsVariableWeight f2"
      using that w1 by (simp_all add: supportsVariableWeight_def read_prop_def)
    then show ?thesis
      unfolding sel select_matches_filter v la using that
      by (simp add: has_preference_def sort_by_def)
  qed
  from one two three four show ?thesis by blast
qed

theorem select_filters_and_ranks_witness:
  "select example_platform
     (register (font_of ''Noto Sans KR'' (Some (JNum (Fin 400))) [''ko''])
       (register (font_of ''Inter'' (Some (JStr ''100 900'')) []) (new_FontManager ''ko'')))
     \<lparr>wanted_languages = None, variable = Some True, weightRange = None, prefer_arg = None\<rparr> =
     [font_of ''Inter'' (Some (JStr ''100 900'')) []] \<and>
   sorted_wrt (ranked_before example_platform [''ko''] None)
     (select example_platform
       (register (font_of ''Noto Sans KR'' (Some (JNum (Fin 400))) [''ko''])
         (register (font_of ''Inter'' (Some (JStr ''100 900'')) []) (new_FontManager ''ko'')))
       \<lparr>wanted_languages = None, variable = Some True, weightRange = None, prefer_arg = None\<rparr>)"
proof -
  let ?f1 = "font_of ''Inter'' (Some (JStr ''100 900'')) []"
  let ?f2 = "font_of ''Noto Sans KR'' (Some (JNum (Fin 400))) [''ko'']"
  let ?m = "register ?f2 (register ?f1 (new_FontManager ''ko''))"
  let ?c = "\<lparr>wanted_languages = None, variable = Some True, weightRange = None, prefer_arg = None\<rparr>"
  have r: "registry_all (registry ?m) = [?f1, ?f2]"
    by (simp add: register_def new_FontManager_def registry_set_def registry_all_def font_of_def)
  have h: "registry_all (registry ?m) = [?f1, ?f2] \<and>
    weight (font_descriptors ?f1) = Some (JStr ''100 900'') \<and>
    weight (font_descriptors ?f2) = Some (JNum (Fin 400)) \<and>
    variable ?c \<noteq> Some False \<and> weightRange ?c = None \<and> prefer_arg ?c = None"
    using r by (simp add: font_of_def)
  have o: "(\<forall>x y z. localeCompare example_platform x y \<le> 0 \<and> localeCompare example_platform y z \<le> 0
        \<longrightarrow> localeCompare example_platform x z \<le> 0) \<and>
    (\<forall>x y. 0 < localeCompare example_platform x y \<longrightarrow> localeCompare example_platform y x \<le> 0)"
    using code_unit_compare_trans code_unit_compare_total by (auto simp: example_platform_def)
  have d: "defaultLanguage ?m = ''ko''" "font_languages ?f1 = []"
    by (simp_all add: register_def new_FontManager_def font_of_def)
  from select_filters_and_ranks [of example_platform ?m ?c ?f1 ?f1 ?f2] h o
  have "select example_platform ?m ?c =
        filter (\<lambda>f. font_languages f = [] \<or>
           set (font_languages f) \<inter>
             set (case wanted_languages ?c of None \<Rightarrow> [defaultLanguage ?m] | Some ls \<Rightarrow> ls) \<noteq> {})
          [?f1]"
    and "sorted_wrt (ranked_before example_platform
          (case wanted_languages ?c of None \<Rightarrow> [defaultLanguage ?m] | Some ls \<Rightarrow> ls) (prefer_arg ?c))
        (select example_platform ?m ?c)"
    by blast+
  then show ?thesis by (simp add: d)
qed

subsection \<open>composeFamily\<close>

lemma langMatches_filter:
  "langMatches S fs = map font_name (filter (\<lambda>f. set (font_languages f) \<inter> S \<noteq> {}) fs)"
  by (induction fs) (auto simp: list_ex_iff)

lemma foldl_add_part:
  "foldl (\<lambda>parts fb. add_part (Some fb) parts) acc xs =
     acc @ map cssEscape (filter (\<lambda>n. n \<noteq> []) xs)"
  by (induction xs arbitrary: acc) (simp_all add: add_part_def)

lemma foldl_add_other:
  "foldl (\<lambda>parts lm. if Some lm \<noteq> primary then add_part (Some lm) parts else parts) acc xs =
     acc @ map cssEscape (filter (\<lambda>n. n \<noteq> []) (filter (\<lambda>n. Some n \<noteq> primary) xs))"
  by (induction xs arbitrary: acc) (simp_all add: add_part_def)

lemma composeFamily_parts:
  "composeFamily m primary fb langs =
     join '', '' (map cssEscape (filter (\<lambda>n. n \<noteq> [])
       ((case primary of None \<Rightarrow> [] | Some q \<Rightarrow> [q]) @
        filter (\<lambda>n. Some n \<noteq> primary)
          (map font_name
            (filter (\<lambda>f. set (font_languages f) \<inter>
                 {l \<in> set (case langs of None \<Rightarrow> [defaultLanguage m]
                            | Some ls \<Rightarrow> if ls = [] then [defaultLanguage m] else ls). l \<noteq> []} \<noteq> {})
               (registry_all (registry m)))) @
        (case fb of None \<Rightarrow> defaultFallback m | Some l \<Rightarrow> l))))"
proof -
  have s: "set (filter (\<lambda>l. l \<noteq> []) w) = {l \<in> set w. l \<noteq> []}" for w :: "string list"
    by auto
  show ?thesis
    unfolding composeFamily_def Let_def foldl_add_part foldl_add_other langMatches_filter s
    by (cases primary) (simp_all add: add_part_def)
qed

text \<open>
  C5. \<open>composeFamily\<close> joins with \<open>", "\<close> the escaped names of: the primary; then the
  registered fonts other than the primary that declare a wanted language (the languages
  given, or the default language when none is given), in the order of the registry; then
  the fallback chain given, or the default one. A missing or empty name adds nothing, and
  an empty language tag is not a wanted language. With \<open>'Noto Sans KR'\<close> the one
  registered font that declares \<open>'ko'\<close>, \<open>composeFamily('Inter', undefined, ['ko'])\<close>
  has it right after \<open>Inter\<close> and before the default fallback chain.
\<close>

theorem composeFamily_order:
  "composeFamily m primary fb langs =
     join '', '' (map cssEscape (filter (\<lambda>n. n \<noteq> [])
       ((case primary of None \<Rightarrow> [] | Some q \<Rightarrow> [q]) @
        filter (\<lambda>n. Some n \<noteq> primary)
          (map font_name
            (filter (\<lambda>f. set (font_languages f) \<inter>
                 {l \<in> set (case langs of None \<Rightarrow> [defaultLanguage m]
                            | Some ls \<Rightarrow> if ls = [] then [defaultLanguage m] else ls). l \<noteq> []} \<noteq> {})
               (registry_all (registry m)))) @
        (case fb of None \<Rightarrow> defaultFallback m | Some l \<Rightarrow> l)))) \<and>
   (filter (\<lambda>g. ''ko'' \<in> set (font_languages g)) (registry_all (registry m)) = [f] \<and>
    font_name f = ''Noto Sans KR'' \<longrightarrow>
      composeFamily m (Some ''Inter'') None (Some [''ko'']) =
        join '', '' ([''Inter'', [dq] @ ''Noto Sans KR'' @ [dq]] @
          map cssEscape (filter (\<lambda>n. n \<noteq> []) (defaultFallback m))))"
proof -
  have e: "cssEscape ''Inter'' = ''Inter''" "cssEscape ''Noto Sans KR'' = [dq] @ ''Noto Sans KR'' @ [dq]"
    by (simp_all add: cssEscape_def is_space_def is_quote_def)
  have k: "(set ls \<inter> {l. l = ''ko'' \<and> l \<noteq> []} \<noteq> {}) = (''ko'' \<in> set ls)" for ls :: "string list"
    by auto
  have two: "composeFamily m (Some ''Inter'') None (Some [''ko'']) =
        join '', '' ([''Inter'', [dq] @ ''Noto Sans KR'' @ [dq]] @
          map cssEscape (filter (\<lambda>n. n \<noteq> []) (defaultFallback m)))"
    if "filter (\<lambda>g. ''ko'' \<in> set (font_languages g)) (registry_all (registry m)) = [f]"
      and "font_name f = ''Noto Sans KR''"
    unfolding composeFamily_parts using that by (simp add: e k)
  show ?thesis
    using two composeFamily_parts [of m primary fb langs] by blast
qed

theorem composeFamily_order_witness:
  "composeFamily (register (font_of ''Noto Sans KR'' (Some (JNum (Fin 400))) [''ko''])
       (new_FontManager ''en'')) (Some ''Inter'') None (Some [''ko'']) =
     ''Inter, '' @ [dq] @ ''Noto Sans KR'' @ [dq] @ '', system-ui, '' @ [dq] @ ''Segoe UI'' @ [dq] @
     '', '' @ [dq] @ ''Apple SD Gothic Neo'' @ [dq] @ '', '' @ [dq] @ ''Noto Sans KR'' @ [dq] @
     '', sans-serif''"
proof -
  let ?f = "font_of ''Noto Sans KR'' (Some (JNum (Fin 400))) [''ko'']"
  let ?m = "register ?f (new_FontManager ''en'')"
  have h: "filter (\<lambda>g. ''ko'' \<in> set (font_languages g)) (registry_all (registry ?m)) = [?f] \<and>
    font_name ?f = ''Noto Sans KR''"
    by (simp add: register_def new_FontManager_def registry_set_def registry_all_def font_of_def)
  have d: "defaultFallback ?m =
      [''system-ui'', ''Segoe UI'', ''Apple SD Gothic Neo'', ''Noto Sans KR'', ''sans-serif'']"
    by (simp add: register_def new_FontManager_def)
  from composeFamily_order [of ?m "Some ''Inter''" None "Some [''ko'']" ?f] h
  have "composeFamily ?m (Some ''Inter'') None (Some [''ko'']) =
        join '', '' ([''Inter'', [dq] @ ''Noto Sans KR'' @ [dq]] @
          map cssEscape (filter (\<lambda>n. n \<noteq> []) (defaultFallback ?m)))"
    by blast
  then show ?thesis
    unfolding d by (simp add: cssEscape_def is_space_def is_quote_def)
qed

subsection \<open>estimateLineHeight\<close>

lemma ends_exclusive: "endsWith s ''%'' \<Longrightarrow> \<not> endsWith s ''px''"
  by (cases "rev s") (auto simp: endsWith_def)

text \<open>
  C4. With \<open>size\<close> the local of that name (the size of the style, 16 when it is absent
  or zero, read as a number), \<open>estimateLineHeight\<close> returns \<open>size * 1.25\<close> without a line
  height, \<open>size * lineHeight\<close> for a number, the parsed number for a string that ends in
  \<open>px\<close>, \<open>size * (parsed / 100)\<close> for a string that ends in \<open>%\<close>, and
  \<open>size * parseFloat(lineHeight)\<close> otherwise: 20 for the size 16 alone, 24 for the size
  16 and \<open>'150%'\<close>.
\<close>

theorem estimateLineHeight_cases:
  "(is_nullish (lineHeight st) \<longrightarrow> estimateLineHeight st = num_mul (size_of st) (Fin (5 / 4))) \<and>
   (\<forall>n. lineHeight st = JNum n \<and> n \<noteq> NaN \<longrightarrow> estimateLineHeight st = num_mul (size_of st) n) \<and>
   (\<forall>s. lineHeight st = JStr s \<and> endsWith s ''px'' \<longrightarrow> estimateLineHeight st = parseFloat s) \<and>
   (\<forall>s. lineHeight st = JStr s \<and> endsWith s ''%'' \<longrightarrow>
        estimateLineHeight st = num_mul (size_of st) (num_div (parseFloat s) (Fin 100))) \<and>
   (\<not> is_nullish (lineHeight st) \<and> \<not> isNumber (lineHeight st) \<and>
    (\<forall>s. lineHeight st = JStr s \<longrightarrow> \<not> endsWith s ''px'' \<and> \<not> endsWith s ''%'') \<longrightarrow>
        estimateLineHeight st = num_mul (size_of st) (parseFloat (String (lineHeight st)))) \<and>
   (\<forall>n. style_size st = JNum (Fin n) \<and> n \<noteq> 0 \<longrightarrow> size_of st = Fin n) \<and>
   estimateLineHeight \<lparr>style_size = JNum (Fin 16), lineHeight = JUndefined\<rparr> = Fin 20 \<and>
   estimateLineHeight \<lparr>style_size = JNum (Fin 16), lineHeight = JStr ''150%''\<rparr> = Fin 24"
proof -
  have a: "estimateLineHeight \<lparr>style_size = JNum (Fin 16), lineHeight = JUndefined\<rparr> = Fin 20"
    by code_simp
  have b: "estimateLineHeight \<lparr>style_size = JNum (Fin 16), lineHeight = JStr ''150%''\<rparr> = Fin 24"
    by code_simp
  have c: "style_size st = JNum (Fin n) \<and> n \<noteq> 0 \<longrightarrow> size_of st = Fin n" for n
    by (simp add: size_of_def truthy_def toUnitless_def)
  have d: "lineHeight st = JStr s \<and> endsWith s ''%'' \<longrightarrow>
        estimateLineHeight st = num_mul (size_of st) (num_div (parseFloat s) (Fin 100))" for s
    using ends_exclusive [of s]
    by (simp add: estimateLineHeight_def Let_def is_nullish_def isNumber_def isString_def String_def)
  have e: "lineHeight st = JNum n \<and> n \<noteq> NaN \<longrightarrow> estimateLineHeight st = num_mul (size_of st) n" for n
    by (simp add: estimateLineHeight_def Let_def is_nullish_def isNumber_def toUnitless_def)
  have f: "lineHeight st = JStr s \<and> endsWith s ''px'' \<longrightarrow> estimateLineHeight st = parseFloat s" for s
    by (simp add: estimateLineHeight_def Let_def is_nullish_def isNumber_def isString_def String_def)
  have g: "is_nullish (lineHeight st) \<longrightarrow> estimateLineHeight st = num_mul (size_of st) (Fin (5 / 4))"
    by (simp add: estimateLineHeight_def Let_def)
  have h: "\<not> is_nullish (lineHeight st) \<and> \<not> isNumber (lineHeight st) \<and>
    (\<forall>s. lineHeight st = JStr s \<longrightarrow> \<not> endsWith s ''px'' \<and> \<not> endsWith s ''%'') \<longrightarrow>
        estimateLineHeight st = num_mul (size_of st) (parseFloat (String (lineHeight st)))"
    by (cases "lineHeight st")
       (simp_all add: estimateLineHeight_def Let_def isString_def String_def)
  from a b c d e f g h show ?thesis by blast
qed

theorem estimateLineHeight_cases_witness:
  "estimateLineHeight \<lparr>style_size = JNum (Fin 16), lineHeight = JNull\<rparr> =
     num_mul (Fin 16) (Fin (5 / 4)) \<and>
   estimateLineHeight \<lparr>style_size = JNum (Fin 16), lineHeight = JNum (Fin (3 / 2))\<rparr> =
     num_mul (Fin 16) (Fin (3 / 2)) \<and>
   estimateLineHeight \<lparr>style_size = JNum (Fin 16), lineHeight = JStr ''18px''\<rparr> =
     parseFloat ''18px'' \<and>
   estimateLineHeight \<lparr>style_size = JNum (Fin 16), lineHeight = JStr ''150%''\<rparr> =
     num_mul (Fin 16) (num_div (parseFloat ''150%'') (Fin 100)) \<and>
   estimateLineHeight \<lparr>style_size = JNum (Fin 16), lineHeight = JStr ''2''\<rparr> =
     num_mul (Fin 16) (parseFloat ''2'')"
proof -
  have s: "size_of \<lparr>style_size = JNum (Fin 16), lineHeight = lh\<rparr> = Fin 16" for lh
    using estimateLineHeight_cases [of "\<lparr>style_size = JNum (Fin 16), lineHeight = lh\<rparr>"] by simp
  have e: "endsWith ''18px'' ''px''" "endsWith ''150%'' ''%''"
    "\<not> endsWith ''2'' ''px''" "\<not> endsWith ''2'' ''%''"
    by (simp_all add: endsWith_def)
  show ?thesis
    using estimateLineHeight_cases [of "\<lparr>style_size = JNum (Fin 16), lineHeight = JNull\<rparr>"]
      estimateLineHeight_cases [of "\<lparr>style_size = JNum (Fin 16), lineHeight = JNum (Fin (3 / 2))\<rparr>"]
      estimateLineHeight_cases [of "\<lparr>style_size = JNum (Fin 16), lineHeight = JStr ''18px''\<rparr>"]
      estimateLineHeight_cases [of "\<lparr>style_size = JNum (Fin 16), lineHeight = JStr ''150%''\<rparr>"]
      estimateLineHeight_cases [of "\<lparr>style_size = JNum (Fin 16), lineHeight = JStr ''2''\<rparr>"]
      e
    by (simp add: s is_nullish_def isNumber_def String_def)
qed

end
